theory Spec2Isabelle
  imports Main
begin

section \<open>Data model of \<open>main.py\<close>\<close>

text \<open>
  A Python \<open>datetime\<close>: its calendar reading (year, month, day, hour, minute, second,
  microsecond), counted here as one integer number of microseconds, and the UTC offset
  in minutes of an aware value; \<open>utcoffset\<close> is \<open>None\<close> for a naive value.
\<close>

record datetime =
  civil :: int
  utcoffset :: "int option"

text \<open>\<open>datetime.now()\<close> and \<open>datetime.now(timezone.utc)\<close>, given the reading of the
  local and of the UTC clock at the moment of the call.\<close>

definition datetime_now :: "int \<Rightarrow> datetime" where
  "datetime_now local_reading = \<lparr>civil = local_reading, utcoffset = None\<rparr>"

definition datetime_now_utc :: "int \<Rightarrow> datetime" where
  "datetime_now_utc utc_reading = \<lparr>civil = utc_reading, utcoffset = Some 0\<rparr>"

text \<open>\<open>d.replace(tzinfo=None)\<close>: the same calendar reading without an offset.\<close>

definition replace_tzinfo_None :: "datetime \<Rightarrow> datetime" where
  "replace_tzinfo_None d = d\<lparr>utcoffset := None\<rparr>"

text \<open>\<open>class Campaign(SQLModel, table=True)\<close> and \<open>class CampaignCreate(SQLModel)\<close>.\<close>

record Campaign =
  campaign_id :: "int option"
  name :: string
  due_date :: "datetime option"
  created_at :: datetime

record CampaignCreate =
  name :: string
  due_date :: "datetime option"

section \<open>The table \<open>campaign\<close> of the SQLite database\<close>

text \<open>
  One row of the table. \<open>campaign_id\<close> is declared \<open>primary_key=True\<close> on an integer
  column, which SQLite makes the row's key (\<open>rowid\<close>); it is never null in a stored
  row. The two \<open>DateTime\<close> columns hold a calendar reading only: the SQLite dialect
  writes the fields year to microsecond as text and has no place for an offset.
  The table is the list of its rows in key order, the order in which a scan
  (\<open>select(Campaign)\<close>, no \<open>ORDER BY\<close>) walks it.

  Keys are unbounded integers here; the 64-bit limit of the engine is not modelled.
\<close>

record row =
  rowid :: int
  col_name :: string
  col_due_date :: "int option"
  col_created_at :: int

type_synonym table = "row list"

definition bind_processor :: "datetime \<Rightarrow> int" where
  "bind_processor d = civil d"

definition result_processor :: "int \<Rightarrow> datetime" where
  "result_processor c = \<lparr>civil = c, utcoffset = None\<rparr>"

text \<open>The object the ORM builds from a row.\<close>

definition load :: "row \<Rightarrow> Campaign" where
  "load r = \<lparr>campaign_id = Some (rowid r),
             name = col_name r,
             due_date = map_option result_processor (col_due_date r),
             created_at = result_processor (col_created_at r)\<rparr>"

text \<open>\<open>session.exec(select(Campaign)).all()\<close>.\<close>

definition select_all :: "table \<Rightarrow> Campaign list" where
  "select_all t = map load t"

text \<open>
  The integers that the database driver can hand to SQLite as a key: the signed 64-bit
  ones. Every stored key is one of them.
\<close>

definition sqlite_integer :: "int \<Rightarrow> bool" where
  "sqlite_integer i = (- (2 ^ 63) \<le> i \<and> i < 2 ^ 63)"

text \<open>
  \<open>session.get(Campaign, id)\<close> for an \<open>id\<close> that the driver can bind: the row under that
  key, if there is one. For an \<open>id\<close> outside \<open>sqlite_integer\<close> the driver raises
  \<open>OverflowError\<close> before any lookup and the request is answered with status 500; that
  path is not part of this function, and the statements below about an id that the
  caller chooses, and that has no row, are made for ids in \<open>sqlite_integer\<close>.
\<close>

definition session_get :: "table \<Rightarrow> int \<Rightarrow> Campaign option" where
  "session_get t i = map_option load (find (\<lambda>r. rowid r = i) t)"

text \<open>
  The key of an inserted row whose \<open>campaign_id\<close> is \<open>None\<close>. The column is a plain
  integer primary key (no \<open>AUTOINCREMENT\<close>), for which SQLite takes 1 in an empty table
  and one more than the largest key in use otherwise.
\<close>

definition new_rowid :: "table \<Rightarrow> int" where
  "new_rowid t = (if t = [] then 1 else Max (set (map rowid t)) + 1)"

fun table_insert :: "row \<Rightarrow> table \<Rightarrow> table" where
  "table_insert r [] = [r]"
| "table_insert r (x # xs) =
     (if rowid r < rowid x then r # x # xs else x # table_insert r xs)"

text \<open>
  \<open>session.add(c); session.commit()\<close> for a new object (every object the source adds
  this way has \<open>campaign_id = None\<close>): one \<open>INSERT\<close>; the result is the key and the
  table.
\<close>

definition insert_commit :: "Campaign \<Rightarrow> table \<Rightarrow> int \<times> table" where
  "insert_commit c t =
     (let k = new_rowid t in
      (k, table_insert \<lparr>rowid = k,
                        col_name = Campaign.name c,
                        col_due_date = map_option bind_processor (Campaign.due_date c),
                        col_created_at = bind_processor (Campaign.created_at c)\<rparr> t))"

text \<open>
  \<open>session.add(data); session.commit()\<close> for an object loaded under key \<open>i\<close> whose
  \<open>name\<close> and \<open>due_date\<close> were assigned: one \<open>UPDATE ... WHERE campaign_id = i\<close>.
\<close>

definition update_commit :: "int \<Rightarrow> Campaign \<Rightarrow> table \<Rightarrow> table" where
  "update_commit i c t =
     map (\<lambda>r. if rowid r = i
              then r\<lparr>col_name := Campaign.name c,
                     col_due_date := map_option bind_processor (Campaign.due_date c)\<rparr>
              else r) t"

text \<open>\<open>session.delete(data); session.commit()\<close>: one \<open>DELETE ... WHERE campaign_id = i\<close>.\<close>

definition delete_commit :: "int \<Rightarrow> table \<Rightarrow> table" where
  "delete_commit i t = filter (\<lambda>r. rowid r \<noteq> i) t"

text \<open>
  What a handler can raise: \<open>HTTPException(status_code, detail)\<close>, and the error of
  \<open>session.refresh\<close> on an object whose row is gone.
\<close>

datatype exn = HTTPException nat string | InvalidRequestError

text \<open>
  \<open>HTTPException(status_code=404)\<close>: the source passes no detail, and the constructor
  then takes the standard phrase of the status code.
\<close>

definition HTTPException_404 :: exn where
  "HTTPException_404 = HTTPException 404 ''Not Found''"

definition refresh :: "table \<Rightarrow> int \<Rightarrow> exn + Campaign" where
  "refresh t k = (case session_get t k of None \<Rightarrow> Inl InvalidRequestError | Some c \<Rightarrow> Inr c)"

section \<open>The handlers\<close>

definition read_campaigns :: "table \<Rightarrow> Campaign list" where
  "read_campaigns t = select_all t"

definition read_campaign :: "int \<Rightarrow> table \<Rightarrow> exn + Campaign" where
  "read_campaign i t =
     (case session_get t i of
        None \<Rightarrow> Inl HTTPException_404
      | Some data \<Rightarrow> Inr data)"

text \<open>
  \<open>Campaign.model_validate(campaign)\<close>: \<open>name\<close> and \<open>due_date\<close> are taken from the input,
  \<open>campaign_id\<close> is its default \<open>None\<close> and \<open>created_at\<close> comes from the default factory
  \<open>datetime.now(timezone.utc)\<close>; \<open>clock\<close> is the reading of the UTC clock at that call.
\<close>

definition model_validate :: "int \<Rightarrow> CampaignCreate \<Rightarrow> Campaign" where
  "model_validate clock campaign =
     \<lparr>campaign_id = None,
      name = CampaignCreate.name campaign,
      due_date = CampaignCreate.due_date campaign,
      created_at = datetime_now_utc clock\<rparr>"

definition create_campaign :: "int \<Rightarrow> CampaignCreate \<Rightarrow> table \<Rightarrow> (exn + Campaign) \<times> table" where
  "create_campaign clock campaign t =
     (let db_campaign = model_validate clock campaign;
          (k, t') = insert_commit db_campaign t
      in (refresh t' k, t'))"

definition update_campaign :: "int \<Rightarrow> CampaignCreate \<Rightarrow> table \<Rightarrow> (exn + Campaign) \<times> table" where
  "update_campaign i campaign t =
     (case session_get t i of
        None \<Rightarrow> (Inl HTTPException_404, t)
      | Some data \<Rightarrow>
          (let data' = data\<lparr>Campaign.name := CampaignCreate.name campaign,
                            Campaign.due_date := CampaignCreate.due_date campaign\<rparr>;
               t' = update_commit i data' t
           in (refresh t' i, t')))"

definition delete_campaign :: "int \<Rightarrow> table \<Rightarrow> (exn + unit) \<times> table" where
  "delete_campaign i t =
     (case session_get t i of
        None \<Rightarrow> (Inl HTTPException_404, t)
      | Some data \<Rightarrow> (Inr (), delete_commit i t))"

section \<open>Startup\<close>

text \<open>
  \<open>create_db_and_tables\<close> on the database file, whose table \<open>campaign\<close> is there or
  not (\<open>None\<close>): \<open>create_all\<close> makes a missing table, empty, and leaves one that exists.
\<close>

definition create_db_and_tables :: "table option \<Rightarrow> table" where
  "create_db_and_tables db = (case db of None \<Rightarrow> [] | Some t \<Rightarrow> t)"

text \<open>
  The seed objects. Building \<open>Campaign(name=..., due_date=datetime.now())\<close> reads the
  local clock for \<open>due_date\<close> and the UTC clock for the default of \<open>created_at\<close>.
\<close>

definition seed :: "string \<Rightarrow> int \<Rightarrow> int \<Rightarrow> Campaign" where
  "seed n local_reading utc_reading =
     \<lparr>campaign_id = None, name = n,
      due_date = Some (datetime_now local_reading),
      created_at = datetime_now_utc utc_reading\<rparr>"

text \<open>
  \<open>lifespan\<close> up to its \<open>yield\<close>. The four readings are those of the local and the UTC
  clock while the first and the second seed object are built. \<open>add_all\<close> and the one
  \<open>commit\<close> insert the two objects in the order of the list.
\<close>

definition lifespan :: "int \<Rightarrow> int \<Rightarrow> int \<Rightarrow> int \<Rightarrow> table option \<Rightarrow> table" where
  "lifespan l1 u1 l2 u2 db =
     (let t = create_db_and_tables db in
      if select_all t = []
      then snd (insert_commit (seed ''Black Friday'' l2 u2)
                  (snd (insert_commit (seed ''Summer Launch'' l1 u1) t)))
      else t)"

section \<open>Responses\<close>

text \<open>
  The JSON content of a response: the envelope \<open>{"data": ...}\<close> of
  \<open>Response[Campaign]\<close> and \<open>Response[list[Campaign]]\<close>, the content
  \<open>{"detail": ...}\<close> that the framework sends for an \<open>HTTPException\<close>, and the plain
  text of its answer to any other exception.
\<close>

datatype content =
  Data Campaign
| DataList "Campaign list"
| Detail string
| PlainText string

record response =
  status :: nat
  body :: "content option"

definition exception_response :: "exn \<Rightarrow> response" where
  "exception_response e =
     (case e of
        HTTPException code d \<Rightarrow>
          (if code < 200 \<or> code = 204 \<or> code = 205 \<or> code = 304
           then \<lparr>status = code, body = None\<rparr>
           else \<lparr>status = code, body = Some (Detail d)\<rparr>)
      | InvalidRequestError \<Rightarrow>
          \<lparr>status = 500, body = Some (PlainText ''Internal Server Error'')\<rparr>)"

text \<open>The routes: each handler under its decorator's status code.\<close>

definition GET_campaigns :: "table \<Rightarrow> response" where
  "GET_campaigns t = \<lparr>status = 200, body = Some (DataList (read_campaigns t))\<rparr>"

definition GET_campaign :: "int \<Rightarrow> table \<Rightarrow> response" where
  "GET_campaign i t =
     (case read_campaign i t of
        Inl e \<Rightarrow> exception_response e
      | Inr c \<Rightarrow> \<lparr>status = 200, body = Some (Data c)\<rparr>)"

definition POST_campaigns :: "int \<Rightarrow> CampaignCreate \<Rightarrow> table \<Rightarrow> response \<times> table" where
  "POST_campaigns clock campaign t =
     (case create_campaign clock campaign t of
        (Inl e, t') \<Rightarrow> (exception_response e, t')
      | (Inr c, t') \<Rightarrow> (\<lparr>status = 201, body = Some (Data c)\<rparr>, t'))"

definition PUT_campaign :: "int \<Rightarrow> CampaignCreate \<Rightarrow> table \<Rightarrow> response \<times> table" where
  "PUT_campaign i campaign t =
     (case update_campaign i campaign t of
        (Inl e, t') \<Rightarrow> (exception_response e, t')
      | (Inr c, t') \<Rightarrow> (\<lparr>status = 200, body = Some (Data c)\<rparr>, t'))"

definition DELETE_campaign :: "int \<Rightarrow> table \<Rightarrow> response \<times> table" where
  "DELETE_campaign i t =
     (case delete_campaign i t of
        (Inl e, t') \<Rightarrow> (exception_response e, t')
      | (Inr u, t') \<Rightarrow> (\<lparr>status = 204, body = None\<rparr>, t'))"

text \<open>
  A request to one of the five routes (a create request comes with the reading of the
  UTC clock taken while it is served), and a sequence of requests served one after the
  other.
\<close>

datatype request =
  List_all
| Get int
| Create int CampaignCreate
| Update int CampaignCreate
| Delete int

fun serve :: "request \<Rightarrow> table \<Rightarrow> response \<times> table" where
  "serve List_all t = (GET_campaigns t, t)"
| "serve (Get i) t = (GET_campaign i t, t)"
| "serve (Create clock campaign) t = POST_campaigns clock campaign t"
| "serve (Update i campaign) t = PUT_campaign i campaign t"
| "serve (Delete i) t = DELETE_campaign i t"

fun run :: "request list \<Rightarrow> table \<Rightarrow> response list \<times> table" where
  "run [] t = ([], t)"
| "run (rq # rqs) t =
     (let (rsp, t') = serve rq t;
          (rsps, t'') = run rqs t'
      in (rsp # rsps, t''))"

section \<open>Request bodies\<close>

text \<open>
  The JSON object of a request body, as a map from its keys to their values, and its
  validation against \<open>CampaignCreate\<close>, which the framework runs before it calls
  \<open>create_campaign\<close> or \<open>update_campaign\<close>. The class declares the two fields \<open>name\<close>
  (required) and \<open>due_date\<close> (default \<open>None\<close>) and no configuration, so a key that
  is not a field is ignored. How one JSON value is read as a \<open>str\<close> or as a
  \<open>datetime | None\<close> is the validation library's and is a parameter here
  (\<open>None\<close>: the value is refused). The result \<open>None\<close> is a refused body; the handler is
  then not called.
\<close>

definition validate_CampaignCreate ::
  "('v \<Rightarrow> string option) \<Rightarrow> ('v \<Rightarrow> datetime option option) \<Rightarrow>
   (string \<rightharpoonup> 'v) \<Rightarrow> CampaignCreate option" where
  "validate_CampaignCreate as_str as_datetime b =
     (case b ''name'' of
        None \<Rightarrow> None
      | Some v \<Rightarrow>
          (case as_str v of
             None \<Rightarrow> None
           | Some n \<Rightarrow>
               (case b ''due_date'' of
                  None \<Rightarrow> Some \<lparr>name = n, due_date = None\<rparr>
                | Some w \<Rightarrow>
                    (case as_datetime w of
                       None \<Rightarrow> None
                     | Some d \<Rightarrow> Some \<lparr>name = n, due_date = d\<rparr>))))"

section \<open>Predicates used in the statements\<close>

text \<open>A \<open>due_date\<close> that is null or a naive timestamp.\<close>

definition offset_free :: "datetime option \<Rightarrow> bool" where
  "offset_free d = (case d of None \<Rightarrow> True | Some x \<Rightarrow> utcoffset x = None)"

text \<open>The id that a response to a create request reports (status 201, one row in the
  envelope).\<close>

definition created_id :: "response \<Rightarrow> int option" where
  "created_id rsp =
     (if status rsp = 201
      then (case body rsp of Some (Data c) \<Rightarrow> campaign_id c | _ \<Rightarrow> None)
      else None)"

text \<open>Every key of the table is positive. The empty table has the property and every
  request keeps it (\<open>keys_positive_run\<close> below), so it holds of every table the service
  builds.\<close>

definition keys_positive :: "table \<Rightarrow> bool" where
  "keys_positive t = list_all (\<lambda>r. 0 < rowid r) t"

section \<open>Facts about the table\<close>

lemma table_insert_above:
  "\<forall>x \<in> set t. rowid x < rowid r \<Longrightarrow> table_insert r t = t @ [r]"
  by (induction t) auto

lemma new_rowid_above: "x \<in> set t \<Longrightarrow> rowid x < new_rowid t"
proof -
  assume x: "x \<in> set t"
  then have "rowid x \<in> set (map rowid t)" by simp
  then have "rowid x \<le> Max (set (map rowid t))" by (intro Max_ge) simp_all
  with x show ?thesis by (auto simp: new_rowid_def)
qed

lemma insert_commit_eq:
  "insert_commit c t =
     (new_rowid t,
      t @ [\<lparr>rowid = new_rowid t,
            col_name = Campaign.name c,
            col_due_date = map_option bind_processor (Campaign.due_date c),
            col_created_at = bind_processor (Campaign.created_at c)\<rparr>])"
  by (simp add: insert_commit_def Let_def table_insert_above new_rowid_above)

lemma find_rowid_None: "i \<notin> set (map rowid t) \<Longrightarrow> find (\<lambda>r. rowid r = i) t = None"
  by (induction t) auto

lemma find_app:
  "find P (xs @ ys) = (case find P xs of None \<Rightarrow> find P ys | Some x \<Rightarrow> Some x)"
  by (induction xs) auto

lemma find_rowid_append_new:
  "rowid r = new_rowid t \<Longrightarrow> find (\<lambda>x. rowid x = new_rowid t) (t @ [r]) = Some r"
proof -
  assume r: "rowid r = new_rowid t"
  have "new_rowid t \<notin> set (map rowid t)"
    using new_rowid_above [of _ t] by force
  then have "find (\<lambda>x. rowid x = new_rowid t) t = None"
    by (rule find_rowid_None)
  with r show ?thesis by (simp add: find_app)
qed

lemma session_get_None_iff: "session_get t i = None \<longleftrightarrow> i \<notin> set (map rowid t)"
  by (auto simp: session_get_def find_None_iff)

lemma session_get_id: "session_get t i = Some c \<Longrightarrow> campaign_id c = Some i"
  by (auto simp: session_get_def load_def find_Some_iff)

section \<open>Facts about the handlers\<close>

lemma create_campaign_eq:
  "create_campaign clock inp t =
     (let r = \<lparr>rowid = new_rowid t,
                col_name = CampaignCreate.name inp,
                col_due_date = map_option civil (CampaignCreate.due_date inp),
                col_created_at = clock\<rparr>
      in (Inr (load r), t @ [r]))"
  by (simp add: create_campaign_def model_validate_def insert_commit_eq Let_def refresh_def
      session_get_def find_rowid_append_new bind_processor_def datetime_now_utc_def
      option.map_comp comp_def cong: option.map_cong)

lemma find_update_commit:
  "find (\<lambda>r. rowid r = i) (update_commit i c t) =
     map_option (\<lambda>r. r\<lparr>col_name := Campaign.name c,
                     col_due_date := map_option bind_processor (Campaign.due_date c)\<rparr>)
       (find (\<lambda>r. rowid r = i) t)"
  by (induction t) (auto simp: update_commit_def)

lemma find_update_commit_other:
  "j \<noteq> i \<Longrightarrow> find (\<lambda>r. rowid r = j) (update_commit i c t) = find (\<lambda>r. rowid r = j) t"
  by (induction t) (auto simp: update_commit_def)

lemma map_rowid_update_commit: "map rowid (update_commit i c t) = map rowid t"
  by (induction t) (auto simp: update_commit_def)

lemma find_delete_commit:
  "find (\<lambda>r. rowid r = j) (delete_commit i t) =
     (if j = i then None else find (\<lambda>r. rowid r = j) t)"
  by (induction t) (auto simp: delete_commit_def)

lemma update_campaign_found:
  "find (\<lambda>r. rowid r = i) t = Some r \<Longrightarrow>
   update_campaign i inp t =
     (Inr (load (r\<lparr>col_name := CampaignCreate.name inp,
                    col_due_date := map_option civil (CampaignCreate.due_date inp)\<rparr>)),
      update_commit i ((load r)\<lparr>Campaign.name := CampaignCreate.name inp,
                                Campaign.due_date := CampaignCreate.due_date inp\<rparr>) t)"
  by (simp add: update_campaign_def session_get_def Let_def refresh_def find_update_commit
      bind_processor_def option.map_comp comp_def cong: option.map_cong)

lemma result_bind: "result_processor (bind_processor d) = replace_tzinfo_None d"
  by (simp add: result_processor_def bind_processor_def replace_tzinfo_None_def)

lemma offset_free_id: "offset_free d \<Longrightarrow> map_option replace_tzinfo_None d = d"
  by (cases d) (auto simp: offset_free_def replace_tzinfo_None_def)

lemma load_due_date:
  "Campaign.due_date (load (r\<lparr>col_due_date := map_option civil d\<rparr>)) = map_option replace_tzinfo_None d"
  by (cases d) (simp_all add: load_def result_processor_def replace_tzinfo_None_def)

section \<open>Round trips\<close>

text \<open>
  C1, as amended. For every table and every create input, creating a campaign and then
  getting it by the returned id yields a row whose name is the input's and whose
  due_date is the input's without its UTC offset, so that it is field for field the
  input's when that is null or a naive timestamp. For every existing id, updating and
  then getting yields the new name and the new due_date (again without its offset),
  while id and created_at are what a get returned before the update.
\<close>

theorem create_get_update_get_roundtrip:
  "(\<exists>c t' k c'.
      create_campaign clock inp t = (Inr c, t') \<and> campaign_id c = Some k \<and>
      read_campaign k t' = Inr c' \<and>
      Campaign.name c' = CampaignCreate.name inp \<and>
      Campaign.due_date c' = map_option replace_tzinfo_None (CampaignCreate.due_date inp) \<and>
      (offset_free (CampaignCreate.due_date inp) \<longrightarrow>
         Campaign.due_date c' = CampaignCreate.due_date inp))
   \<and>
   (\<forall>old. session_get t i = Some old \<longrightarrow>
      (\<exists>c t' c'.
         update_campaign i upd t = (Inr c, t') \<and> read_campaign i t' = Inr c' \<and>
         Campaign.name c' = CampaignCreate.name upd \<and>
         Campaign.due_date c' = map_option replace_tzinfo_None (CampaignCreate.due_date upd) \<and>
         (offset_free (CampaignCreate.due_date upd) \<longrightarrow>
            Campaign.due_date c' = CampaignCreate.due_date upd) \<and>
         campaign_id c' = campaign_id old \<and> created_at c' = created_at old))"
proof (intro conjI allI impI)
  define r where "r = \<lparr>rowid = new_rowid t,
                col_name = CampaignCreate.name inp,
                col_due_date = map_option civil (CampaignCreate.due_date inp),
                col_created_at = clock\<rparr>"
  have cr: "create_campaign clock inp t = (Inr (load r), t @ [r])"
    by (simp add: create_campaign_eq r_def Let_def)
  have k: "campaign_id (load r) = Some (new_rowid t)"
    by (simp add: load_def r_def)
  have rd: "read_campaign (new_rowid t) (t @ [r]) = Inr (load r)"
    by (simp add: read_campaign_def session_get_def find_rowid_append_new r_def)
  have nm: "Campaign.name (load r) = CampaignCreate.name inp"
    by (simp add: load_def r_def)
  have dd: "Campaign.due_date (load r) =
      map_option replace_tzinfo_None (CampaignCreate.due_date inp)"
    using load_due_date [where r = r and d = "CampaignCreate.due_date inp"] by (simp add: r_def)
  from cr k rd nm dd offset_free_id [of "CampaignCreate.due_date inp"]
  show "\<exists>c t' k c'.
      create_campaign clock inp t = (Inr c, t') \<and> campaign_id c = Some k \<and>
      read_campaign k t' = Inr c' \<and>
      Campaign.name c' = CampaignCreate.name inp \<and>
      Campaign.due_date c' = map_option replace_tzinfo_None (CampaignCreate.due_date inp) \<and>
      (offset_free (CampaignCreate.due_date inp) \<longrightarrow>
         Campaign.due_date c' = CampaignCreate.due_date inp)"
    by auto
next
  fix old
  assume old: "session_get t i = Some old"
  then obtain r where r: "find (\<lambda>r. rowid r = i) t = Some r" and lo: "old = load r"
    by (auto simp: session_get_def)
  define r' where "r' = r\<lparr>col_name := CampaignCreate.name upd,
                    col_due_date := map_option civil (CampaignCreate.due_date upd)\<rparr>"
  define t' where "t' = update_commit i ((load r)\<lparr>Campaign.name := CampaignCreate.name upd,
                                Campaign.due_date := CampaignCreate.due_date upd\<rparr>) t"
  have up: "update_campaign i upd t = (Inr (load r'), t')"
    using update_campaign_found [OF r, of upd] by (simp add: r'_def t'_def)
  have "find (\<lambda>r. rowid r = i) t' = Some r'"
    by (simp add: t'_def find_update_commit r r'_def bind_processor_def
        option.map_comp comp_def cong: option.map_cong)
  then have rd: "read_campaign i t' = Inr (load r')"
    by (simp add: read_campaign_def session_get_def)
  have nm: "Campaign.name (load r') = CampaignCreate.name upd"
    by (simp add: load_def r'_def)
  have dd: "Campaign.due_date (load r') =
      map_option replace_tzinfo_None (CampaignCreate.due_date upd)"
    using load_due_date [where r = "r\<lparr>col_name := CampaignCreate.name upd\<rparr>" and d = "CampaignCreate.due_date upd"]
    by (simp add: r'_def)
  have keep: "campaign_id (load r') = campaign_id old" "created_at (load r') = created_at old"
    by (simp_all add: load_def r'_def lo)
  from up rd nm dd keep offset_free_id [of "CampaignCreate.due_date upd"]
  show "\<exists>c t' c'.
         update_campaign i upd t = (Inr c, t') \<and> read_campaign i t' = Inr c' \<and>
         Campaign.name c' = CampaignCreate.name upd \<and>
         Campaign.due_date c' = map_option replace_tzinfo_None (CampaignCreate.due_date upd) \<and>
         (offset_free (CampaignCreate.due_date upd) \<longrightarrow>
            Campaign.due_date c' = CampaignCreate.due_date upd) \<and>
         campaign_id c' = campaign_id old \<and> created_at c' = created_at old"
    by auto
qed

text \<open>
  C1, witness: a create and an update with naive timestamps on a table of one row.
\<close>

theorem create_get_roundtrip_witness:
  "offset_free (Some \<lparr>civil = 5, utcoffset = None\<rparr>)
   \<and> session_get [\<lparr>rowid = 1, col_name = ''Summer Launch'', col_due_date = Some 2, col_created_at = 3\<rparr>] 1
       = Some \<lparr>campaign_id = Some 1, name = ''Summer Launch'',
               due_date = Some \<lparr>civil = 2, utcoffset = None\<rparr>,
               created_at = \<lparr>civil = 3, utcoffset = None\<rparr>\<rparr>
   \<and> (\<exists>c t' k c'.
        create_campaign 7 \<lparr>name = ''Spring Sale'', due_date = Some \<lparr>civil = 5, utcoffset = None\<rparr>\<rparr>
          [\<lparr>rowid = 1, col_name = ''Summer Launch'', col_due_date = Some 2, col_created_at = 3\<rparr>]
          = (Inr c, t') \<and> campaign_id c = Some k \<and> read_campaign k t' = Inr c' \<and>
        Campaign.name c' = ''Spring Sale'' \<and>
        Campaign.due_date c' = Some \<lparr>civil = 5, utcoffset = None\<rparr>)
   \<and> (\<exists>c t' c'.
        update_campaign 1 \<lparr>name = ''Renamed'', due_date = Some \<lparr>civil = 9, utcoffset = None\<rparr>\<rparr>
          [\<lparr>rowid = 1, col_name = ''Summer Launch'', col_due_date = Some 2, col_created_at = 3\<rparr>]
          = (Inr c, t') \<and> read_campaign 1 t' = Inr c' \<and>
        Campaign.name c' = ''Renamed'' \<and>
        Campaign.due_date c' = Some \<lparr>civil = 9, utcoffset = None\<rparr> \<and>
        campaign_id c' = Some 1 \<and> created_at c' = \<lparr>civil = 3, utcoffset = None\<rparr>)"
  using create_get_update_get_roundtrip
    [where clock = 7
       and inp = "\<lparr>name = ''Spring Sale'', due_date = Some \<lparr>civil = 5, utcoffset = None\<rparr>\<rparr>"
       and t = "[\<lparr>rowid = 1, col_name = ''Summer Launch'', col_due_date = Some 2, col_created_at = 3\<rparr>]"
       and i = 1
       and upd = "\<lparr>name = ''Renamed'', due_date = Some \<lparr>civil = 9, utcoffset = None\<rparr>\<rparr>"]
  by (simp add: offset_free_def session_get_def load_def result_processor_def) blast

text \<open>
  C1 as stated fails: a create input whose due_date carries the offset of UTC comes
  back, from the create and from the get that follows it, without the offset.
\<close>

theorem due_date_offset_lost:
  "create_campaign 7 \<lparr>name = ''Spring Sale'', due_date = Some \<lparr>civil = 5, utcoffset = Some 0\<rparr>\<rparr> [] =
     (Inr \<lparr>campaign_id = Some 1, name = ''Spring Sale'',
           due_date = Some \<lparr>civil = 5, utcoffset = None\<rparr>,
           created_at = \<lparr>civil = 7, utcoffset = None\<rparr>\<rparr>,
      [\<lparr>rowid = 1, col_name = ''Spring Sale'', col_due_date = Some 5, col_created_at = 7\<rparr>])
   \<and> read_campaign 1
        [\<lparr>rowid = 1, col_name = ''Spring Sale'', col_due_date = Some 5, col_created_at = 7\<rparr>] =
      Inr \<lparr>campaign_id = Some 1, name = ''Spring Sale'',
           due_date = Some \<lparr>civil = 5, utcoffset = None\<rparr>,
           created_at = \<lparr>civil = 7, utcoffset = None\<rparr>\<rparr>
   \<and> Some \<lparr>civil = 5, utcoffset = None\<rparr> \<noteq> Some \<lparr>civil = (5::int), utcoffset = Some (0::int)\<rparr>"
  by (simp add: create_campaign_def model_validate_def insert_commit_def new_rowid_def
      refresh_def session_get_def load_def read_campaign_def bind_processor_def
      result_processor_def datetime_now_utc_def Let_def)

section \<open>Not found\<close>

text \<open>
  C2, as amended. For every id that the driver can bind (a signed 64-bit integer) and
  that has no row in the table, get, update and delete raise
  \<open>HTTPException(status_code=404)\<close>, answered with status 404 and the content
  \<open>{"detail": "Not Found"}\<close>, and leave the table as it is; for an id that has a row
  none of the three answers 404 (they answer 200, 200 and 204).
\<close>

theorem not_found_exactly_for_missing_id:
  "(sqlite_integer i \<and> i \<notin> set (map rowid t) \<longrightarrow>
      read_campaign i t = Inl (HTTPException 404 ''Not Found'') \<and>
      update_campaign i upd t = (Inl (HTTPException 404 ''Not Found''), t) \<and>
      delete_campaign i t = (Inl (HTTPException 404 ''Not Found''), t) \<and>
      GET_campaign i t = \<lparr>status = 404, body = Some (Detail ''Not Found'')\<rparr> \<and>
      PUT_campaign i upd t = (\<lparr>status = 404, body = Some (Detail ''Not Found'')\<rparr>, t) \<and>
      DELETE_campaign i t = (\<lparr>status = 404, body = Some (Detail ''Not Found'')\<rparr>, t))
   \<and>
   (i \<in> set (map rowid t) \<longrightarrow>
      status (GET_campaign i t) = 200 \<and>
      status (fst (PUT_campaign i upd t)) = 200 \<and>
      status (fst (DELETE_campaign i t)) = 204)"
proof (intro conjI impI)
  assume "sqlite_integer i \<and> i \<notin> set (map rowid t)"
  then have g: "session_get t i = None" by (simp add: session_get_None_iff)
  from g show "read_campaign i t = Inl (HTTPException 404 ''Not Found'')"
    by (simp add: read_campaign_def HTTPException_404_def)
  from g show "update_campaign i upd t = (Inl (HTTPException 404 ''Not Found''), t)"
    by (simp add: update_campaign_def HTTPException_404_def)
  from g show "delete_campaign i t = (Inl (HTTPException 404 ''Not Found''), t)"
    by (simp add: delete_campaign_def HTTPException_404_def)
  from g show "GET_campaign i t = \<lparr>status = 404, body = Some (Detail ''Not Found'')\<rparr>"
    by (simp add: GET_campaign_def read_campaign_def HTTPException_404_def exception_response_def)
  from g show "PUT_campaign i upd t = (\<lparr>status = 404, body = Some (Detail ''Not Found'')\<rparr>, t)"
    by (simp add: PUT_campaign_def update_campaign_def HTTPException_404_def exception_response_def)
  from g show "DELETE_campaign i t = (\<lparr>status = 404, body = Some (Detail ''Not Found'')\<rparr>, t)"
    by (simp add: DELETE_campaign_def delete_campaign_def HTTPException_404_def exception_response_def)
next
  assume "i \<in> set (map rowid t)"
  then have "session_get t i \<noteq> None" by (simp add: session_get_None_iff)
  then obtain old where old: "session_get t i = Some old" by auto
  then obtain r where r: "find (\<lambda>r. rowid r = i) t = Some r"
    by (auto simp: session_get_def)
  from old show "status (GET_campaign i t) = 200"
    by (simp add: GET_campaign_def read_campaign_def)
  from update_campaign_found [OF r, of upd] show "status (fst (PUT_campaign i upd t)) = 200"
    by (simp add: PUT_campaign_def)
  from old show "status (fst (DELETE_campaign i t)) = 204"
    by (simp add: DELETE_campaign_def delete_campaign_def)
qed

text \<open>C2, witness: the ids 9999 (no row) and 1 (a row) on a table of one row.\<close>

theorem not_found_witness:
  "sqlite_integer 9999
   \<and> (9999::int) \<notin> set (map rowid [\<lparr>rowid = 1, col_name = ''Summer Launch'', col_due_date = Some 2, col_created_at = 3\<rparr>])
   \<and> DELETE_campaign 9999 [\<lparr>rowid = 1, col_name = ''Summer Launch'', col_due_date = Some 2, col_created_at = 3\<rparr>]
       = (\<lparr>status = 404, body = Some (Detail ''Not Found'')\<rparr>,
          [\<lparr>rowid = 1, col_name = ''Summer Launch'', col_due_date = Some 2, col_created_at = 3\<rparr>])
   \<and> (1::int) \<in> set (map rowid [\<lparr>rowid = 1, col_name = ''Summer Launch'', col_due_date = Some 2, col_created_at = 3\<rparr>])
   \<and> status (fst (DELETE_campaign 1 [\<lparr>rowid = 1, col_name = ''Summer Launch'', col_due_date = Some 2, col_created_at = 3\<rparr>])) = 204"
  using not_found_exactly_for_missing_id
    [where i = 9999 and upd = "\<lparr>name = ''Renamed'', due_date = None\<rparr>"
       and t = "[\<lparr>rowid = 1, col_name = ''Summer Launch'', col_due_date = Some 2, col_created_at = 3\<rparr>]"]
    not_found_exactly_for_missing_id
    [where i = 1 and upd = "\<lparr>name = ''Renamed'', due_date = None\<rparr>"
       and t = "[\<lparr>rowid = 1, col_name = ''Summer Launch'', col_due_date = Some 2, col_created_at = 3\<rparr>]"]
  by (simp add: sqlite_integer_def)

text \<open>
  C2 as stated fails in its "empty body": the answer to a get of an id that has no
  row has a content.
\<close>

theorem not_found_body_counterexample:
  "GET_campaign 9999 [] = \<lparr>status = 404, body = Some (Detail ''Not Found'')\<rparr>
   \<and> body (GET_campaign 9999 []) \<noteq> None"
  by (simp add: GET_campaign_def read_campaign_def session_get_def HTTPException_404_def
      exception_response_def)

section \<open>Update\<close>

text \<open>
  C3. For every existing id the update replaces both mutable fields: the stored name
  is the input's name and the stored due_date is the input's due_date (as the column
  keeps it), whatever the row held before; so an input without a due_date sets the
  stored due_date to null. The returned row shows the same.
\<close>

theorem update_replaces_name_and_due_date:
  assumes "session_get t i = Some old"
  shows "\<exists>c t' r.
      update_campaign i upd t = (Inr c, t') \<and>
      find (\<lambda>r. rowid r = i) t' = Some r \<and> c = load r \<and>
      col_name r = CampaignCreate.name upd \<and>
      col_due_date r = map_option civil (CampaignCreate.due_date upd) \<and>
      Campaign.name c = CampaignCreate.name upd \<and>
      Campaign.due_date c = map_option replace_tzinfo_None (CampaignCreate.due_date upd) \<and>
      (CampaignCreate.due_date upd = None \<longrightarrow>
         col_due_date r = None \<and> Campaign.due_date c = None)"
proof -
  from assms obtain r where r: "find (\<lambda>r. rowid r = i) t = Some r"
    by (auto simp: session_get_def)
  define r' where "r' = r\<lparr>col_name := CampaignCreate.name upd,
                    col_due_date := map_option civil (CampaignCreate.due_date upd)\<rparr>"
  define t' where "t' = update_commit i ((load r)\<lparr>Campaign.name := CampaignCreate.name upd,
                                Campaign.due_date := CampaignCreate.due_date upd\<rparr>) t"
  have up: "update_campaign i upd t = (Inr (load r'), t')"
    using update_campaign_found [OF r, of upd] by (simp add: r'_def t'_def)
  have f: "find (\<lambda>r. rowid r = i) t' = Some r'"
    by (simp add: t'_def find_update_commit r r'_def bind_processor_def
        option.map_comp comp_def cong: option.map_cong)
  have dd: "Campaign.due_date (load r') =
      map_option replace_tzinfo_None (CampaignCreate.due_date upd)"
    using load_due_date [where r = "r\<lparr>col_name := CampaignCreate.name upd\<rparr>"
        and d = "CampaignCreate.due_date upd"]
    by (simp add: r'_def)
  have "col_name r' = CampaignCreate.name upd"
    "col_due_date r' = map_option civil (CampaignCreate.due_date upd)"
    "Campaign.name (load r') = CampaignCreate.name upd"
    "CampaignCreate.due_date upd = None \<longrightarrow>
       col_due_date r' = None \<and> Campaign.due_date (load r') = None"
    by (simp_all add: r'_def load_def)
  with up f dd show ?thesis
    by (intro exI [of _ "load r'"] exI [of _ t'] exI [of _ r']) simp
qed

text \<open>
  C3, witness: row 1, which has a due_date, is updated once with another due_date
  and once with none.
\<close>

theorem update_replaces_witness:
  "session_get [\<lparr>rowid = 1, col_name = ''Summer Launch'', col_due_date = Some 2, col_created_at = 3\<rparr>] 1
       = Some \<lparr>campaign_id = Some 1, name = ''Summer Launch'',
               due_date = Some \<lparr>civil = 2, utcoffset = None\<rparr>,
               created_at = \<lparr>civil = 3, utcoffset = None\<rparr>\<rparr>
   \<and> (\<exists>c t' r.
        update_campaign 1 \<lparr>name = ''Renamed'', due_date = Some \<lparr>civil = 9, utcoffset = None\<rparr>\<rparr>
          [\<lparr>rowid = 1, col_name = ''Summer Launch'', col_due_date = Some 2, col_created_at = 3\<rparr>]
          = (Inr c, t') \<and>
        find (\<lambda>r. rowid r = 1) t' = Some r \<and> c = load r \<and>
        col_name r = ''Renamed'' \<and> col_due_date r = Some 9 \<and>
        Campaign.name c = ''Renamed'' \<and>
        Campaign.due_date c = Some \<lparr>civil = 9, utcoffset = None\<rparr>)
   \<and> (\<exists>c t' r.
        update_campaign 1 \<lparr>name = ''Renamed'', due_date = None\<rparr>
          [\<lparr>rowid = 1, col_name = ''Summer Launch'', col_due_date = Some 2, col_created_at = 3\<rparr>]
          = (Inr c, t') \<and>
        find (\<lambda>r. rowid r = 1) t' = Some r \<and> c = load r \<and>
        col_name r = ''Renamed'' \<and> Campaign.name c = ''Renamed'' \<and>
        col_due_date r = None \<and> Campaign.due_date c = None)"
proof -
  have g: "session_get [\<lparr>rowid = 1, col_name = ''Summer Launch'', col_due_date = Some 2, col_created_at = 3\<rparr>] 1
       = Some \<lparr>campaign_id = Some 1, name = ''Summer Launch'',
               due_date = Some \<lparr>civil = 2, utcoffset = None\<rparr>,
               created_at = \<lparr>civil = 3, utcoffset = None\<rparr>\<rparr>"
    by (simp add: session_get_def load_def result_processor_def)
  from update_replaces_name_and_due_date
    [OF g, of "\<lparr>name = ''Renamed'', due_date = Some \<lparr>civil = 9, utcoffset = None\<rparr>\<rparr>"]
  have a: "\<exists>c t' r.
        update_campaign 1 \<lparr>name = ''Renamed'', due_date = Some \<lparr>civil = 9, utcoffset = None\<rparr>\<rparr>
          [\<lparr>rowid = 1, col_name = ''Summer Launch'', col_due_date = Some 2, col_created_at = 3\<rparr>]
          = (Inr c, t') \<and>
        find (\<lambda>r. rowid r = 1) t' = Some r \<and> c = load r \<and>
        col_name r = ''Renamed'' \<and> col_due_date r = Some 9 \<and>
        Campaign.name c = ''Renamed'' \<and>
        Campaign.due_date c = Some \<lparr>civil = 9, utcoffset = None\<rparr>"
    by (simp add: replace_tzinfo_None_def)
  from update_replaces_name_and_due_date [OF g, of "\<lparr>name = ''Renamed'', due_date = None\<rparr>"]
  have b: "\<exists>c t' r.
        update_campaign 1 \<lparr>name = ''Renamed'', due_date = None\<rparr>
          [\<lparr>rowid = 1, col_name = ''Summer Launch'', col_due_date = Some 2, col_created_at = 3\<rparr>]
          = (Inr c, t') \<and>
        find (\<lambda>r. rowid r = 1) t' = Some r \<and> c = load r \<and>
        col_name r = ''Renamed'' \<and> Campaign.name c = ''Renamed'' \<and>
        col_due_date r = None \<and> Campaign.due_date c = None"
    by simp blast
  from g a b show ?thesis by (intro conjI)
qed

section \<open>Facts about sequences of requests\<close>

lemma new_rowid_positive: "keys_positive t \<Longrightarrow> 0 < new_rowid t"
proof (cases t)
  case Nil
  then show ?thesis by (simp add: new_rowid_def)
next
  case (Cons x xs)
  assume "keys_positive t"
  with Cons have "0 < rowid x" by (simp add: keys_positive_def)
  moreover have "rowid x < new_rowid t" using Cons by (intro new_rowid_above) simp
  ultimately show ?thesis by simp
qed

lemma create_campaign_table:
  "snd (create_campaign clock inp t) =
     t @ [\<lparr>rowid = new_rowid t,
           col_name = CampaignCreate.name inp,
           col_due_date = map_option civil (CampaignCreate.due_date inp),
           col_created_at = clock\<rparr>]"
  by (simp add: create_campaign_eq Let_def)

lemma update_campaign_table:
  "snd (update_campaign i upd t) = t \<or>
   (\<exists>c. snd (update_campaign i upd t) = update_commit i c t)"
  by (cases "session_get t i") (auto simp: update_campaign_def Let_def)

lemma delete_campaign_table:
  "snd (delete_campaign i t) = (if i \<in> set (map rowid t) then delete_commit i t else t)"
  using session_get_None_iff [of t i]
  by (cases "session_get t i") (simp_all add: delete_campaign_def)

lemma delete_commit_absent: "i \<notin> set (map rowid t) \<Longrightarrow> delete_commit i t = t"
  by (induction t) (auto simp: delete_commit_def)

lemma delete_campaign_table_eq: "snd (delete_campaign i t) = delete_commit i t"
  by (simp add: delete_campaign_table delete_commit_absent)

lemma map_rowid_update_campaign: "map rowid (snd (update_campaign i upd t)) = map rowid t"
  using update_campaign_table [of i upd t] by (auto simp: map_rowid_update_commit)

lemma map_rowid_delete_commit: "map rowid (delete_commit i t) = filter (\<lambda>j. j \<noteq> i) (map rowid t)"
  by (induction t) (auto simp: delete_commit_def)

lemma snd_POST: "snd (POST_campaigns clock inp t) = snd (create_campaign clock inp t)"
  by (simp add: POST_campaigns_def split: prod.splits sum.splits)

lemma snd_PUT: "snd (PUT_campaign i upd t) = snd (update_campaign i upd t)"
  by (simp add: PUT_campaign_def split: prod.splits sum.splits)

lemma snd_DELETE: "snd (DELETE_campaign i t) = snd (delete_campaign i t)"
  by (simp add: DELETE_campaign_def split: prod.splits sum.splits)

lemma keys_positive_iff: "keys_positive t \<longleftrightarrow> (\<forall>k \<in> set (map rowid t). 0 < k)"
  by (auto simp: keys_positive_def list_all_iff)

lemma keys_positive_serve: "keys_positive t \<Longrightarrow> keys_positive (snd (serve rq t))"
proof (cases rq)
  case (Create clock inp)
  assume "keys_positive t"
  then show ?thesis
    using new_rowid_positive [of t]
    by (simp add: Create snd_POST create_campaign_table keys_positive_def)
next
  case (Update i upd)
  assume "keys_positive t"
  then show ?thesis
    by (simp add: Update snd_PUT keys_positive_iff map_rowid_update_campaign)
next
  case (Delete i)
  assume "keys_positive t"
  then show ?thesis
    by (auto simp: Delete snd_DELETE delete_campaign_table_eq keys_positive_iff
        map_rowid_delete_commit)
qed simp_all

lemma snd_run_Cons: "snd (run (rq # rqs) t) = snd (run rqs (snd (serve rq t)))"
  by (simp add: split_beta Let_def)

lemma keys_positive_run: "keys_positive t \<Longrightarrow> keys_positive (snd (run rqs t))"
proof (induction rqs arbitrary: t)
  case Nil
  then show ?case by simp
next
  case (Cons rq rqs)
  from Cons.prems have "keys_positive (snd (serve rq t))" by (rule keys_positive_serve)
  then have "keys_positive (snd (run rqs (snd (serve rq t))))" by (rule Cons.IH)
  then show ?case by (simp only: snd_run_Cons)
qed

lemma lifespan_fresh:
  "db = None \<or> db = Some [] \<Longrightarrow>
   lifespan l1 u1 l2 u2 db =
     [\<lparr>rowid = 1, col_name = ''Summer Launch'', col_due_date = Some l1, col_created_at = u1\<rparr>,
      \<lparr>rowid = 2, col_name = ''Black Friday'', col_due_date = Some l2, col_created_at = u2\<rparr>]"
  by (auto simp: lifespan_def create_db_and_tables_def select_all_def insert_commit_def
      new_rowid_def seed_def datetime_now_def datetime_now_utc_def bind_processor_def Let_def)

lemma lifespan_nonempty: "t \<noteq> [] \<Longrightarrow> lifespan l1 u1 l2 u2 (Some t) = t"
  by (simp add: lifespan_def create_db_and_tables_def select_all_def)

lemma keys_positive_lifespan:
  "(case db of None \<Rightarrow> True | Some t \<Rightarrow> keys_positive t) \<Longrightarrow>
   keys_positive (lifespan l1 u1 l2 u2 db)"
proof (cases "db = None \<or> db = Some []")
  case True
  then show ?thesis by (simp add: lifespan_fresh keys_positive_def)
next
  case False
  then obtain t where "db = Some t" "t \<noteq> []" by (cases db) auto
  moreover assume "case db of None \<Rightarrow> True | Some t \<Rightarrow> keys_positive t"
  ultimately show ?thesis by (simp add: lifespan_nonempty)
qed

lemma created_id_GET [simp]: "created_id (GET_campaigns t) = None"
  by (simp add: created_id_def GET_campaigns_def)

lemma status_exception_response_404 [simp]:
  "exception_response HTTPException_404 = \<lparr>status = 404, body = Some (Detail ''Not Found'')\<rparr>"
  by (simp add: exception_response_def HTTPException_404_def)

lemma created_id_GET1: "created_id (GET_campaign i t) = None"
  by (cases "session_get t i")
     (simp_all add: created_id_def GET_campaign_def read_campaign_def)

lemma created_id_PUT: "created_id (fst (PUT_campaign i upd t)) = None"
proof (cases "find (\<lambda>r. rowid r = i) t")
  case None
  then show ?thesis
    by (simp add: created_id_def PUT_campaign_def update_campaign_def session_get_def)
next
  case (Some r)
  from update_campaign_found [OF Some, of upd] show ?thesis
    by (simp add: created_id_def PUT_campaign_def)
qed

lemma created_id_DELETE: "created_id (fst (DELETE_campaign i t)) = None"
  by (cases "session_get t i")
     (simp_all add: created_id_def DELETE_campaign_def delete_campaign_def)

lemma created_id_POST: "created_id (fst (POST_campaigns clock inp t)) = Some (new_rowid t)"
  by (simp add: created_id_def POST_campaigns_def create_campaign_eq Let_def load_def)

lemma created_id_serve:
  "created_id (fst (serve rq t)) = Some k \<Longrightarrow>
   (\<exists>clock inp. rq = Create clock inp) \<and> k = new_rowid t"
  by (cases rq) (auto simp: created_id_GET1 created_id_PUT created_id_DELETE created_id_POST)

lemma absent_serve:
  "i \<notin> set (map rowid t) \<Longrightarrow> created_id (fst (serve rq t)) \<noteq> Some i \<Longrightarrow>
   i \<notin> set (map rowid (snd (serve rq t)))"
proof (cases rq)
  case (Create clock inp)
  assume "i \<notin> set (map rowid t)" "created_id (fst (serve rq t)) \<noteq> Some i"
  then show ?thesis
    by (auto simp: Create created_id_POST snd_POST create_campaign_table)
next
  case (Update j upd)
  assume "i \<notin> set (map rowid t)"
  then show ?thesis by (simp add: Update snd_PUT map_rowid_update_campaign)
next
  case (Delete j)
  assume "i \<notin> set (map rowid t)"
  then show ?thesis
    by (simp add: Delete snd_DELETE delete_campaign_table_eq map_rowid_delete_commit)
qed simp_all

lemma fst_run_Cons: "fst (run (rq # rqs) t) = fst (serve rq t) # fst (run rqs (snd (serve rq t)))"
  by (simp add: split_beta Let_def)

lemma absent_run:
  "i \<notin> set (map rowid t) \<Longrightarrow> \<forall>rsp \<in> set (fst (run rqs t)). created_id rsp \<noteq> Some i \<Longrightarrow>
   i \<notin> set (map rowid (snd (run rqs t)))"
proof (induction rqs arbitrary: t)
  case Nil
  then show ?case by simp
next
  case (Cons rq rqs)
  from Cons.prems(2) [unfolded fst_run_Cons]
  have here: "created_id (fst (serve rq t)) \<noteq> Some i"
    and later: "\<forall>rsp \<in> set (fst (run rqs (snd (serve rq t)))). created_id rsp \<noteq> Some i"
    by simp_all
  from Cons.prems(1) here have "i \<notin> set (map rowid (snd (serve rq t)))"
    by (rule absent_serve)
  from Cons.IH [OF this later] show ?case unfolding snd_run_Cons .
qed

lemma absent_not_found:
  "i \<notin> set (map rowid t) \<Longrightarrow>
   DELETE_campaign i t = (\<lparr>status = 404, body = Some (Detail ''Not Found'')\<rparr>, t) \<and>
   GET_campaign i t = \<lparr>status = 404, body = Some (Detail ''Not Found'')\<rparr>"
proof -
  assume "i \<notin> set (map rowid t)"
  then have "session_get t i = None" by (simp add: session_get_None_iff)
  then show ?thesis
    by (simp add: DELETE_campaign_def delete_campaign_def GET_campaign_def read_campaign_def)
qed

lemma DELETE_204_iff: "status (fst (DELETE_campaign i t)) = 204 \<longleftrightarrow> i \<in> set (map rowid t)"
  using session_get_None_iff [of t i]
  by (cases "session_get t i") (simp_all add: DELETE_campaign_def delete_campaign_def)

lemmas eval_defs =
  DELETE_campaign_def delete_campaign_def GET_campaign_def read_campaign_def
  GET_campaigns_def read_campaigns_def select_all_def
  POST_campaigns_def create_campaign_def PUT_campaign_def update_campaign_def
  model_validate_def insert_commit_def update_commit_def delete_commit_def new_rowid_def
  refresh_def session_get_def load_def bind_processor_def result_processor_def
  datetime_now_utc_def datetime_now_def exception_response_def HTTPException_404_def
  created_id_def Let_def

lemma run_nth:
  "n < length rqs \<Longrightarrow>
   fst (run rqs t) ! n = fst (serve (rqs ! n) (snd (run (take n rqs) t)))"
proof (induction rqs arbitrary: n t)
  case Nil
  then show ?case by simp
next
  case (Cons rq rqs)
  show ?case
  proof (cases n)
    case 0
    then show ?thesis by (simp add: fst_run_Cons del: run.simps(2)) 
  next
    case (Suc m)
    with Cons.prems have "m < length rqs" by simp
    from Cons.IH [OF this, of "snd (serve rq t)"] Suc show ?thesis
      by (simp add: fst_run_Cons snd_run_Cons del: run.simps(2))
  qed
qed

lemma created_above_stored:
  "created_id (fst (serve rq t)) = Some k \<Longrightarrow> r \<in> set t \<Longrightarrow> rowid r < k"
  using created_id_serve [of rq t k] new_rowid_above [of r t] by simp

lemma map_created_at_update_commit:
  "map col_created_at (update_commit i c t) = map col_created_at t"
  by (induction t) (auto simp: update_commit_def)

lemma map_created_at_update_campaign:
  "map col_created_at (snd (update_campaign i upd t)) = map col_created_at t"
  using update_campaign_table [of i upd t] by (auto simp: map_created_at_update_commit)

lemma find_update_campaign_other:
  "j \<noteq> i \<Longrightarrow>
   find (\<lambda>r. rowid r = j) (snd (update_campaign i upd t)) = find (\<lambda>r. rowid r = j) t"
  using update_campaign_table [of i upd t] by (auto simp: find_update_commit_other)

section \<open>Create\<close>

text \<open>
  C4. On a table whose keys are positive (every table the service builds), a create
  returns a row with a non-null id greater than zero and with the created_at that the
  UTC clock showed while the request ran (as the column keeps it, without the offset);
  and whatever create comes next on the resulting table, its id is another one.
\<close>

theorem create_assigns_positive_fresh_id:
  assumes "keys_positive t"
  shows "\<exists>c t' k.
      create_campaign clock inp t = (Inr c, t') \<and> campaign_id c = Some k \<and> 0 < k \<and>
      created_at c = replace_tzinfo_None (datetime_now_utc clock) \<and>
      (\<forall>clock2 inp2. \<exists>c2 t2 k2.
          create_campaign clock2 inp2 t' = (Inr c2, t2) \<and> campaign_id c2 = Some k2 \<and>
          k < k2 \<and> k2 \<noteq> k)"
proof -
  define r where "r = \<lparr>rowid = new_rowid t,
                col_name = CampaignCreate.name inp,
                col_due_date = map_option civil (CampaignCreate.due_date inp),
                col_created_at = clock\<rparr>"
  have cr: "create_campaign clock inp t = (Inr (load r), t @ [r])"
    by (simp add: create_campaign_eq r_def Let_def)
  have k: "campaign_id (load r) = Some (new_rowid t)"
    by (simp add: load_def r_def)
  have pos: "0 < new_rowid t" using assms by (rule new_rowid_positive)
  have ca: "created_at (load r) = replace_tzinfo_None (datetime_now_utc clock)"
    by (simp add: load_def r_def result_processor_def replace_tzinfo_None_def
        datetime_now_utc_def)
  have nxt: "\<exists>c2 t2 k2.
          create_campaign clock2 inp2 (t @ [r]) = (Inr c2, t2) \<and> campaign_id c2 = Some k2 \<and>
          new_rowid t < k2 \<and> k2 \<noteq> new_rowid t" for clock2 inp2
  proof -
    have "rowid r < new_rowid (t @ [r])" by (intro new_rowid_above) simp
    then have "new_rowid t < new_rowid (t @ [r])" by (simp add: r_def)
    then show ?thesis by (simp add: create_campaign_eq Let_def load_def)
  qed
  from cr k pos ca nxt show ?thesis by blast
qed

text \<open>C4, witness: two creates in a row on a table of one row.\<close>

theorem create_assigns_positive_fresh_id_witness:
  "keys_positive [\<lparr>rowid = 1, col_name = ''Summer Launch'', col_due_date = Some 2, col_created_at = 3\<rparr>]
   \<and> (\<exists>c t' k.
        create_campaign 7 \<lparr>name = ''Spring Sale'', due_date = None\<rparr>
          [\<lparr>rowid = 1, col_name = ''Summer Launch'', col_due_date = Some 2, col_created_at = 3\<rparr>]
          = (Inr c, t') \<and> campaign_id c = Some k \<and> 0 < k \<and>
        created_at c = \<lparr>civil = 7, utcoffset = None\<rparr> \<and>
        (\<exists>c2 t2 k2.
            create_campaign 8 \<lparr>name = ''Autumn'', due_date = None\<rparr> t' = (Inr c2, t2) \<and>
            campaign_id c2 = Some k2 \<and> k2 \<noteq> k))"
proof -
  have h: "keys_positive [\<lparr>rowid = 1, col_name = ''Summer Launch'', col_due_date = Some 2, col_created_at = 3\<rparr>]"
    by (simp add: keys_positive_def)
  from create_assigns_positive_fresh_id [OF h, of 7 "\<lparr>name = ''Spring Sale'', due_date = None\<rparr>"]
  obtain c t' k where
    a: "create_campaign 7 \<lparr>name = ''Spring Sale'', due_date = None\<rparr>
          [\<lparr>rowid = 1, col_name = ''Summer Launch'', col_due_date = Some 2, col_created_at = 3\<rparr>]
          = (Inr c, t')" "campaign_id c = Some k" "0 < k"
       "created_at c = replace_tzinfo_None (datetime_now_utc 7)"
    and b: "\<And>clock2 inp2. \<exists>c2 t2 k2.
          create_campaign clock2 inp2 t' = (Inr c2, t2) \<and> campaign_id c2 = Some k2 \<and>
          k < k2 \<and> k2 \<noteq> k"
    by blast
  from b [of 8 "\<lparr>name = ''Autumn'', due_date = None\<rparr>"] obtain c2 t2 k2 where
    c: "create_campaign 8 \<lparr>name = ''Autumn'', due_date = None\<rparr> t' = (Inr c2, t2)"
       "campaign_id c2 = Some k2" "k2 \<noteq> k"
    by blast
  have "created_at c = \<lparr>civil = 7, utcoffset = None\<rparr>"
    using a(4) by (simp add: replace_tzinfo_None_def datetime_now_utc_def)
  with h a c show ?thesis by blast
qed

section \<open>Seeding at startup\<close>

text \<open>
  C5. When the table is missing or empty at startup, \<open>lifespan\<close> inserts exactly two rows,
  named "Summer Launch" and "Black Friday", each with the due_date that the local clock
  showed while its object was built, and the list route then returns exactly these two;
  when the table has a row at startup, \<open>lifespan\<close> inserts nothing.
\<close>

theorem lifespan_seeds_empty_table_only:
  "((db = None \<or> db = Some []) \<longrightarrow>
      lifespan l1 u1 l2 u2 db =
        [\<lparr>rowid = 1, col_name = ''Summer Launch'', col_due_date = Some l1, col_created_at = u1\<rparr>,
         \<lparr>rowid = 2, col_name = ''Black Friday'', col_due_date = Some l2, col_created_at = u2\<rparr>] \<and>
      GET_campaigns (lifespan l1 u1 l2 u2 db) =
        \<lparr>status = 200,
         body = Some (DataList
           [\<lparr>campaign_id = Some 1, name = ''Summer Launch'',
             due_date = Some (datetime_now l1),
             created_at = replace_tzinfo_None (datetime_now_utc u1)\<rparr>,
            \<lparr>campaign_id = Some 2, name = ''Black Friday'',
             due_date = Some (datetime_now l2),
             created_at = replace_tzinfo_None (datetime_now_utc u2)\<rparr>])\<rparr>)
   \<and> (\<forall>t. db = Some t \<and> t \<noteq> [] \<longrightarrow> lifespan l1 u1 l2 u2 db = t)"
proof (intro conjI impI allI)
  assume f: "db = None \<or> db = Some []"
  then show l: "lifespan l1 u1 l2 u2 db =
        [\<lparr>rowid = 1, col_name = ''Summer Launch'', col_due_date = Some l1, col_created_at = u1\<rparr>,
         \<lparr>rowid = 2, col_name = ''Black Friday'', col_due_date = Some l2, col_created_at = u2\<rparr>]"
    by (rule lifespan_fresh)
  show "GET_campaigns (lifespan l1 u1 l2 u2 db) =
        \<lparr>status = 200,
         body = Some (DataList
           [\<lparr>campaign_id = Some 1, name = ''Summer Launch'',
             due_date = Some (datetime_now l1),
             created_at = replace_tzinfo_None (datetime_now_utc u1)\<rparr>,
            \<lparr>campaign_id = Some 2, name = ''Black Friday'',
             due_date = Some (datetime_now l2),
             created_at = replace_tzinfo_None (datetime_now_utc u2)\<rparr>])\<rparr>"
    by (simp add: l GET_campaigns_def read_campaigns_def select_all_def load_def
        result_processor_def datetime_now_def datetime_now_utc_def replace_tzinfo_None_def)
next
  fix t
  assume "db = Some t \<and> t \<noteq> []"
  then show "lifespan l1 u1 l2 u2 db = t" by (simp add: lifespan_nonempty)
qed

text \<open>C5, witness: startup without a table, and startup on a table of one row.\<close>

theorem lifespan_seeds_witness:
  "lifespan 10 11 12 13 None =
        [\<lparr>rowid = 1, col_name = ''Summer Launch'', col_due_date = Some 10, col_created_at = 11\<rparr>,
         \<lparr>rowid = 2, col_name = ''Black Friday'', col_due_date = Some 12, col_created_at = 13\<rparr>]
   \<and> lifespan 10 11 12 13
        (Some [\<lparr>rowid = 5, col_name = ''Spring Sale'', col_due_date = None, col_created_at = 3\<rparr>]) =
        [\<lparr>rowid = 5, col_name = ''Spring Sale'', col_due_date = None, col_created_at = 3\<rparr>]"
  using lifespan_seeds_empty_table_only [where db = None and ?l1.0 = 10 and ?u1.0 = 11 and ?l2.0 = 12 and ?u2.0 = 13]
    lifespan_seeds_empty_table_only
      [where db = "Some [\<lparr>rowid = 5, col_name = ''Spring Sale'', col_due_date = None, col_created_at = 3\<rparr>]"
         and ?l1.0 = 10 and ?u1.0 = 11 and ?l2.0 = 12 and ?u2.0 = 13]
  by simp

section \<open>Delete\<close>

text \<open>
  C6. After a delete of an id has succeeded (status 204), a second delete of that id
  and a get of it answer 404; and after any further sequence of requests in which no
  create reported that id, the id is still not in the table, so delete and get still
  answer 404.
\<close>

theorem delete_then_not_found_until_recreated:
  assumes "DELETE_campaign i t = (rsp, t')" and "status rsp = 204"
  shows "i \<notin> set (map rowid t') \<and>
     DELETE_campaign i t' = (\<lparr>status = 404, body = Some (Detail ''Not Found'')\<rparr>, t') \<and>
     GET_campaign i t' = \<lparr>status = 404, body = Some (Detail ''Not Found'')\<rparr> \<and>
     (\<forall>rqs. (\<forall>r \<in> set (fst (run rqs t')). created_id r \<noteq> Some i) \<longrightarrow>
        i \<notin> set (map rowid (snd (run rqs t'))) \<and>
        DELETE_campaign i (snd (run rqs t')) =
          (\<lparr>status = 404, body = Some (Detail ''Not Found'')\<rparr>, snd (run rqs t')) \<and>
        GET_campaign i (snd (run rqs t')) = \<lparr>status = 404, body = Some (Detail ''Not Found'')\<rparr>)"
proof -
  from assms have "t' = snd (DELETE_campaign i t)" by simp
  then have "t' = delete_commit i t" by (simp add: snd_DELETE delete_campaign_table_eq)
  then have gone: "i \<notin> set (map rowid t')" by (simp add: map_rowid_delete_commit)
  have later: "i \<notin> set (map rowid (snd (run rqs t')))"
    if "\<forall>r \<in> set (fst (run rqs t')). created_id r \<noteq> Some i" for rqs
    using gone that by (rule absent_run)
  from gone later absent_not_found [of i t'] absent_not_found [of i "snd (run _ t')"]
  show ?thesis by blast
qed

text \<open>
  C6, witness: row 1 of two is deleted; a create (which is given id 3) and a get
  follow.
\<close>

theorem delete_then_not_found_witness:
  "DELETE_campaign 1
      [\<lparr>rowid = 1, col_name = ''Summer Launch'', col_due_date = Some 2, col_created_at = 3\<rparr>,
       \<lparr>rowid = 2, col_name = ''Black Friday'', col_due_date = Some 4, col_created_at = 5\<rparr>]
     = (\<lparr>status = 204, body = None\<rparr>,
        [\<lparr>rowid = 2, col_name = ''Black Friday'', col_due_date = Some 4, col_created_at = 5\<rparr>])
   \<and> map created_id (fst (run [Create 9 \<lparr>name = ''Spring Sale'', due_date = None\<rparr>, Get 1]
        [\<lparr>rowid = 2, col_name = ''Black Friday'', col_due_date = Some 4, col_created_at = 5\<rparr>]))
       = [Some 3, None]
   \<and> DELETE_campaign 1
        [\<lparr>rowid = 2, col_name = ''Black Friday'', col_due_date = Some 4, col_created_at = 5\<rparr>]
       = (\<lparr>status = 404, body = Some (Detail ''Not Found'')\<rparr>,
          [\<lparr>rowid = 2, col_name = ''Black Friday'', col_due_date = Some 4, col_created_at = 5\<rparr>])
   \<and> GET_campaign 1
        (snd (run [Create 9 \<lparr>name = ''Spring Sale'', due_date = None\<rparr>, Get 1]
          [\<lparr>rowid = 2, col_name = ''Black Friday'', col_due_date = Some 4, col_created_at = 5\<rparr>]))
       = \<lparr>status = 404, body = Some (Detail ''Not Found'')\<rparr>"
proof -
  let ?t = "[\<lparr>rowid = 1, col_name = ''Summer Launch'', col_due_date = Some 2, col_created_at = 3\<rparr>,
       \<lparr>rowid = 2, col_name = ''Black Friday'', col_due_date = Some 4, col_created_at = 5\<rparr>]"
  let ?t' = "[\<lparr>rowid = 2, col_name = ''Black Friday'', col_due_date = Some 4, col_created_at = 5\<rparr>]"
  let ?rqs = "[Create 9 \<lparr>name = ''Spring Sale'', due_date = None\<rparr>, Get 1]"
  have d: "DELETE_campaign 1 ?t = (\<lparr>status = 204, body = None\<rparr>, ?t')"
    by (simp add: DELETE_campaign_def delete_campaign_def session_get_def delete_commit_def)
  have s: "status \<lparr>status = 204, body = None\<rparr> = 204" by simp
  have ids: "map created_id (fst (run ?rqs ?t')) = [Some 3, None]"
    by (simp add: eval_defs)
  have h: "\<forall>r \<in> set (fst (run ?rqs ?t')). created_id r \<noteq> Some 1"
  proof
    fix r
    assume "r \<in> set (fst (run ?rqs ?t'))"
    then have "created_id r \<in> set (map created_id (fst (run ?rqs ?t')))"
      by (simp del: run.simps)
    then have "created_id r \<in> {Some 3, None}" by (simp only: ids list.set)
    then show "created_id r \<noteq> Some 1" by auto
  qed
  from delete_then_not_found_until_recreated [OF d s] h
  have "DELETE_campaign 1 ?t' = (\<lparr>status = 404, body = Some (Detail ''Not Found'')\<rparr>, ?t')"
    and "GET_campaign 1 (snd (run ?rqs ?t')) = \<lparr>status = 404, body = Some (Detail ''Not Found'')\<rparr>"
    by blast+
  with d ids show ?thesis by blast
qed

section \<open>Ids\<close>

text \<open>
  C7, as amended. The id of a row never changes: an update leaves the keys of the
  table as they are and a delete removes the one key only. A create returns an id
  larger than every id in the table at that moment, in every sequence of requests, and
  so never the id of a row that is stored; the id of a deleted row is given out again
  only when no row with that id or a larger one is left.
\<close>

theorem ids_fixed_and_created_above_stored:
  "(\<forall>n k. n < length rqs \<and> created_id (fst (run rqs t) ! n) = Some k \<longrightarrow>
        (\<forall>r \<in> set (snd (run (take n rqs) t)). rowid r < k))
   \<and> (\<exists>c k. fst (create_campaign clock inp t) = Inr c \<and> campaign_id c = Some k \<and>
          (\<forall>r \<in> set t. rowid r < k) \<and>
          map rowid (snd (create_campaign clock inp t)) = map rowid t @ [k])
   \<and> map rowid (snd (update_campaign i upd t)) = map rowid t
   \<and> map rowid (snd (delete_campaign i t)) = filter (\<lambda>j. j \<noteq> i) (map rowid t)"
proof (intro conjI allI impI ballI)
  fix n k r
  assume a: "n < length rqs \<and> created_id (fst (run rqs t) ! n) = Some k"
    and r: "r \<in> set (snd (run (take n rqs) t))"
  from a have n: "n < length rqs" and c: "created_id (fst (run rqs t) ! n) = Some k"
    by blast+
  from c have "created_id (fst (serve (rqs ! n) (snd (run (take n rqs) t)))) = Some k"
    unfolding run_nth [OF n, of t] .
  from created_above_stored [OF this r] show "rowid r < k" .
next
  show "\<exists>c k. fst (create_campaign clock inp t) = Inr c \<and> campaign_id c = Some k \<and>
          (\<forall>r \<in> set t. rowid r < k) \<and>
          map rowid (snd (create_campaign clock inp t)) = map rowid t @ [k]"
    using new_rowid_above [of _ t]
    by (simp add: create_campaign_eq Let_def load_def)
next
  show "map rowid (snd (update_campaign i upd t)) = map rowid t"
    by (rule map_rowid_update_campaign)
next
  show "map rowid (snd (delete_campaign i t)) = filter (\<lambda>j. j \<noteq> i) (map rowid t)"
    by (simp add: delete_campaign_table_eq map_rowid_delete_commit)
qed

text \<open>
  C7, witness: after row 1 of two is deleted, a create is given id 3, above the
  remaining id 2.
\<close>

theorem ids_fixed_witness:
  "created_id (fst (run [Delete 1, Create 8 \<lparr>name = ''Autumn Sale'', due_date = None\<rparr>]
      [\<lparr>rowid = 1, col_name = ''Summer Launch'', col_due_date = Some 2, col_created_at = 3\<rparr>,
       \<lparr>rowid = 2, col_name = ''Black Friday'', col_due_date = Some 4, col_created_at = 5\<rparr>]) ! 1)
     = Some 3
   \<and> snd (run (take 1 [Delete 1, Create 8 \<lparr>name = ''Autumn Sale'', due_date = None\<rparr>])
      [\<lparr>rowid = 1, col_name = ''Summer Launch'', col_due_date = Some 2, col_created_at = 3\<rparr>,
       \<lparr>rowid = 2, col_name = ''Black Friday'', col_due_date = Some 4, col_created_at = 5\<rparr>])
     = [\<lparr>rowid = 2, col_name = ''Black Friday'', col_due_date = Some 4, col_created_at = 5\<rparr>]
   \<and> rowid \<lparr>rowid = 2, col_name = ''Black Friday'', col_due_date = Some 4, col_created_at = 5\<rparr>
       < (3::int)"
proof -
  let ?rqs = "[Delete 1, Create 8 \<lparr>name = ''Autumn Sale'', due_date = None\<rparr>]"
  let ?t = "[\<lparr>rowid = 1, col_name = ''Summer Launch'', col_due_date = Some 2, col_created_at = 3\<rparr>,
       \<lparr>rowid = 2, col_name = ''Black Friday'', col_due_date = Some 4, col_created_at = 5\<rparr>]"
  let ?r = "\<lparr>rowid = 2, col_name = ''Black Friday'', col_due_date = Some 4, col_created_at = 5\<rparr>"
  have c: "created_id (fst (run ?rqs ?t) ! 1) = Some 3"
    by (simp add: eval_defs)
  have s: "snd (run (take 1 ?rqs) ?t) = [?r]"
    by (simp add: eval_defs)
  have n: "(1::nat) < length ?rqs" by simp
  from ids_fixed_and_created_above_stored
    [where rqs = ?rqs and t = ?t and clock = 0 and inp = "\<lparr>name = '''', due_date = None\<rparr>"
       and i = 0 and upd = "\<lparr>name = '''', due_date = None\<rparr>"]
  have "\<forall>n k. n < length ?rqs \<and> created_id (fst (run ?rqs ?t) ! n) = Some k \<longrightarrow>
        (\<forall>r \<in> set (snd (run (take n ?rqs) ?t)). rowid r < k)"
    by (rule conjunct1)
  with n c have "\<forall>r \<in> set (snd (run (take 1 ?rqs) ?t)). rowid r < 3" by blast
  then have "rowid ?r < (3::int)" unfolding s by simp
  with c s show ?thesis by blast
qed

text \<open>
  C7 as stated fails: on the empty table a create is given id 1, the row is
  deleted, and the next create is given id 1 again.
\<close>

theorem deleted_id_reused:
  "map status (fst (run [Create 7 \<lparr>name = ''Spring Sale'', due_date = None\<rparr>,
                         Delete 1,
                         Create 8 \<lparr>name = ''Autumn Sale'', due_date = None\<rparr>] []))
     = [201, 204, 201]
   \<and> map created_id (fst (run [Create 7 \<lparr>name = ''Spring Sale'', due_date = None\<rparr>,
                         Delete 1,
                         Create 8 \<lparr>name = ''Autumn Sale'', due_date = None\<rparr>] []))
     = [Some 1, None, Some 1]"
  by (simp add: eval_defs)

section \<open>What the caller can set\<close>

text \<open>
  C8. A \<open>campaign_id\<close> or \<open>created_at\<close> in a request body changes nothing: the body
  validates to the same input, which depends on the keys \<open>name\<close> and \<open>due_date\<close> only.
  A create stores the key chosen by the table and the created_at read from the clock,
  with the name and due_date of the input; an update leaves the key and the created_at
  of every row, and every other row, as they were.
\<close>

theorem caller_sets_name_and_due_date_only:
  "validate_CampaignCreate as_str as_datetime (b(''campaign_id'' \<mapsto> v, ''created_at'' \<mapsto> w)) =
     validate_CampaignCreate as_str as_datetime b
   \<and> (b ''name'' = b' ''name'' \<and> b ''due_date'' = b' ''due_date'' \<longrightarrow>
        validate_CampaignCreate as_str as_datetime b =
        validate_CampaignCreate as_str as_datetime b')
   \<and> create_campaign clock inp t =
        (Inr \<lparr>campaign_id = Some (new_rowid t),
              name = CampaignCreate.name inp,
              due_date = map_option replace_tzinfo_None (CampaignCreate.due_date inp),
              created_at = replace_tzinfo_None (datetime_now_utc clock)\<rparr>,
         t @ [\<lparr>rowid = new_rowid t,
               col_name = CampaignCreate.name inp,
               col_due_date = map_option civil (CampaignCreate.due_date inp),
               col_created_at = clock\<rparr>])
   \<and> map rowid (snd (update_campaign i upd t)) = map rowid t
   \<and> map col_created_at (snd (update_campaign i upd t)) = map col_created_at t
   \<and> (\<forall>j. j \<noteq> i \<longrightarrow>
         find (\<lambda>r. rowid r = j) (snd (update_campaign i upd t)) = find (\<lambda>r. rowid r = j) t)"
proof (intro conjI impI allI)
  show "validate_CampaignCreate as_str as_datetime (b(''campaign_id'' \<mapsto> v, ''created_at'' \<mapsto> w)) =
     validate_CampaignCreate as_str as_datetime b"
  proof -
    have n: "(b(''campaign_id'' \<mapsto> v, ''created_at'' \<mapsto> w)) ''name'' = b ''name''"
      and d: "(b(''campaign_id'' \<mapsto> v, ''created_at'' \<mapsto> w)) ''due_date'' = b ''due_date''"
      by simp_all
    show ?thesis unfolding validate_CampaignCreate_def n d ..
  qed
next
  assume "b ''name'' = b' ''name'' \<and> b ''due_date'' = b' ''due_date''"
  then have n: "b ''name'' = b' ''name''" and d: "b ''due_date'' = b' ''due_date''"
    by blast+
  show "validate_CampaignCreate as_str as_datetime b =
        validate_CampaignCreate as_str as_datetime b'"
    unfolding validate_CampaignCreate_def n d ..
next
  have "map_option (result_processor \<circ> civil) d = map_option replace_tzinfo_None d" for d
    by (cases d) (simp_all add: result_processor_def replace_tzinfo_None_def)
  then show "create_campaign clock inp t =
        (Inr \<lparr>campaign_id = Some (new_rowid t),
              name = CampaignCreate.name inp,
              due_date = map_option replace_tzinfo_None (CampaignCreate.due_date inp),
              created_at = replace_tzinfo_None (datetime_now_utc clock)\<rparr>,
         t @ [\<lparr>rowid = new_rowid t,
               col_name = CampaignCreate.name inp,
               col_due_date = map_option civil (CampaignCreate.due_date inp),
               col_created_at = clock\<rparr>])"
    by (simp add: create_campaign_eq Let_def load_def option.map_comp result_processor_def
        replace_tzinfo_None_def datetime_now_utc_def)
next
  show "map rowid (snd (update_campaign i upd t)) = map rowid t"
    by (rule map_rowid_update_campaign)
next
  show "map col_created_at (snd (update_campaign i upd t)) = map col_created_at t"
    by (rule map_created_at_update_campaign)
next
  fix j assume "j \<noteq> i"
  then show "find (\<lambda>r. rowid r = j) (snd (update_campaign i upd t)) = find (\<lambda>r. rowid r = j) t"
    by (rule find_update_campaign_other)
qed

text \<open>
  C8, witness: a body with a \<open>campaign_id\<close> validates like the one without it, and an
  update of row 2 leaves row 1 alone.
\<close>

theorem caller_sets_name_and_due_date_only_witness:
  "[''name'' \<mapsto> ''Renamed'', ''campaign_id'' \<mapsto> ''77''] ''name'' = [''name'' \<mapsto> ''Renamed''] ''name''
   \<and> [''name'' \<mapsto> ''Renamed'', ''campaign_id'' \<mapsto> ''77''] ''due_date'' = [''name'' \<mapsto> ''Renamed''] ''due_date''
   \<and> validate_CampaignCreate Some (\<lambda>v. None) [''name'' \<mapsto> ''Renamed'', ''campaign_id'' \<mapsto> ''77'']
       = Some \<lparr>name = ''Renamed'', due_date = None\<rparr>
   \<and> (1::int) \<noteq> 2
   \<and> find (\<lambda>r. rowid r = 1)
        (snd (update_campaign 2 \<lparr>name = ''Renamed'', due_date = None\<rparr>
          [\<lparr>rowid = 1, col_name = ''Summer Launch'', col_due_date = Some 2, col_created_at = 3\<rparr>,
           \<lparr>rowid = 2, col_name = ''Black Friday'', col_due_date = Some 4, col_created_at = 5\<rparr>]))
       = Some \<lparr>rowid = 1, col_name = ''Summer Launch'', col_due_date = Some 2, col_created_at = 3\<rparr>"
  using caller_sets_name_and_due_date_only
    [where b = "[''name'' \<mapsto> ''Renamed'', ''campaign_id'' \<mapsto> ''77'']"
       and b' = "[''name'' \<mapsto> ''Renamed'']"
       and as_str = Some and as_datetime = "\<lambda>v. None"
       and v = "''''" and w = "''''"
       and clock = 0 and inp = "\<lparr>name = '''', due_date = None\<rparr>"
       and i = 2 and upd = "\<lparr>name = ''Renamed'', due_date = None\<rparr>"
       and t = "[\<lparr>rowid = 1, col_name = ''Summer Launch'', col_due_date = Some 2, col_created_at = 3\<rparr>,
           \<lparr>rowid = 2, col_name = ''Black Friday'', col_due_date = Some 4, col_created_at = 5\<rparr>]"]
  by (simp add: validate_CampaignCreate_def)

section \<open>Listing\<close>

text \<open>
  C10. On a table with no rows the list route still answers with status 200 and the
  envelope around an empty array; it is not a 404.
\<close>

theorem list_empty_table_ok:
  "GET_campaigns [] = \<lparr>status = 200, body = Some (DataList [])\<rparr>"
  by (simp add: GET_campaigns_def read_campaigns_def select_all_def)

text \<open>
  C9. The list route returns the whole table, one object per row and in the order of
  the rows, with no pagination; that order is the order of insertion: a create puts
  its row last, an update keeps every position, a delete takes out its row only.
\<close>

theorem list_returns_all_rows_in_insertion_order:
  "GET_campaigns t = \<lparr>status = 200, body = Some (DataList (map load t))\<rparr>
   \<and> read_campaigns t = map load t
   \<and> length (read_campaigns t) = length t
   \<and> map campaign_id (read_campaigns t) = map (\<lambda>r. Some (rowid r)) t
   \<and> (\<exists>c. fst (create_campaign clock inp t) = Inr c \<and>
          read_campaigns (snd (create_campaign clock inp t)) = read_campaigns t @ [c])
   \<and> map campaign_id (read_campaigns (snd (update_campaign i upd t))) =
       map campaign_id (read_campaigns t)
   \<and> read_campaigns (snd (delete_campaign i t)) =
       filter (\<lambda>c. campaign_id c \<noteq> Some i) (read_campaigns t)"
proof (intro conjI)
  show "GET_campaigns t = \<lparr>status = 200, body = Some (DataList (map load t))\<rparr>"
    by (simp add: GET_campaigns_def read_campaigns_def select_all_def)
  show "read_campaigns t = map load t" "length (read_campaigns t) = length t"
    by (simp_all add: read_campaigns_def select_all_def)
  show "map campaign_id (read_campaigns t) = map (\<lambda>r. Some (rowid r)) t"
    by (simp add: read_campaigns_def select_all_def load_def comp_def)
  show "\<exists>c. fst (create_campaign clock inp t) = Inr c \<and>
          read_campaigns (snd (create_campaign clock inp t)) = read_campaigns t @ [c]"
    by (simp add: create_campaign_eq Let_def read_campaigns_def select_all_def)
  have "map campaign_id (map load u) = map (\<lambda>k. Some k) (map rowid u)" for u
    by (simp add: load_def comp_def)
  then show "map campaign_id (read_campaigns (snd (update_campaign i upd t))) =
       map campaign_id (read_campaigns t)"
    by (simp only: read_campaigns_def select_all_def map_rowid_update_campaign)
  show "read_campaigns (snd (delete_campaign i t)) =
       filter (\<lambda>c. campaign_id c \<noteq> Some i) (read_campaigns t)"
    by (simp add: delete_campaign_table_eq delete_commit_def read_campaigns_def select_all_def
        filter_map comp_def load_def)
qed

end
